theory Spec2Isabelle
  imports Main "HOL-Library.Word" "HOL-Library.Sublist"
begin

section \<open>The RBF cooperative close states (lnwallet/chancloser/rbf\_coop\_states.go)\<close>

subsection \<open>Data\<close>

text \<open>
  Values of other packages are kept as the code holds them: a script, a public key, a
  transaction, a wire message and a hash are byte strings; \<open>lnwire.MilliSatoshi\<close> is
  a \<open>uint64\<close>; \<open>btcutil.Amount\<close> and \<open>chainfee.SatPerVByte\<close> are \<open>int64\<close>, so
  amounts are compared with the signed order \<open><s\<close>, \<open>\<le>s\<close> of 64-bit words.
\<close>

type_synonym bytes = "8 word list"
type_synonym MilliSatoshi = "64 word"
type_synonym Amount = "64 word"
type_synonym SatPerVByte = "64 word"
type_synonym DeliveryAddress = bytes
type_synonym MsgTx = bytes
type_synonym PublicKey = bytes
type_synonym Message = bytes
type_synonym Hash = bytes

record OutPoint =
  OutHash :: Hash
  OutIndex :: "32 word"

record ShutdownBalances =
  LocalBalance :: MilliSatoshi
  RemoteBalance :: MilliSatoshi

record ShutdownScripts =
  LocalDeliveryScript :: DeliveryAddress
  RemoteDeliveryScript :: DeliveryAddress

text \<open>
  \<open>CloseChannelTerms\<close> embeds \<open>ShutdownBalances\<close> and \<open>ShutdownScripts\<close>; the two
  embedded structs are its two fields, and \<open>c.LocalBalance\<close> of the source is
  \<open>LocalBalance (Balances c)\<close>.
\<close>

record CloseChannelTerms =
  Balances :: ShutdownBalances
  Scripts :: ShutdownScripts

record TxOut =
  PkScript :: bytes
  Value :: "64 word"

text \<open>
  The protocol events: the eight types that implement the sealed interface
  \<open>ProtocolEvent\<close>, with their exported fields. \<open>lnwire.ClosingSig\<close> and
  \<open>lnwire.ClosingComplete\<close> are carried as wire bytes.
\<close>

datatype ProtocolEvent =
    SpendEvent (Tx: MsgTx) (BlockHeight: "32 word")
  | SendShutdown (IdealFeeRate: SatPerVByte) (DeliveryAddr: "DeliveryAddress option")
  | ShutdownReceived (RecvBlockHeight: "32 word") (ShutdownScript: DeliveryAddress)
  | ShutdownComplete
  | ChannelFlushed (FreshFlush: bool) (FlushedBalances: ShutdownBalances)
  | SendOfferEvent (TargetFeeRate: SatPerVByte)
  | LocalSigReceived (SigMsg: bytes)
  | OfferReceivedEvent (OfferMsg: bytes)

text \<open>
  The protocol states: the nine types of \<open>ProtocolStates\<close>, with their exported
  fields. \<open>ClosingNegotiation\<close> holds a \<open>DualPeerState\<close>, a local and a remote
  sub-state; the early remote offer of \<open>ChannelFlushing\<close> is kept as the message
  the \<open>OfferReceivedEvent\<close> carries.
\<close>

datatype ProtocolState =
    ChannelActive
  | ShutdownPending ShutdownScripts "SatPerVByte option"
  | ChannelFlushing (EarlyRemoteOffer: "bytes option") ShutdownScripts "SatPerVByte option"
  | ClosingNegotiation (LocalState: ProtocolState) (RemoteState: ProtocolState)
  | LocalCloseStart CloseChannelTerms
  | LocalOfferSent Amount SatPerVByte bytes CloseChannelTerms
  | ClosePending MsgTx SatPerVByte
  | CloseFin MsgTx
  | RemoteCloseStart CloseChannelTerms

subsection \<open>Terminal states\<close>

text \<open>\<open>IsTerminal\<close>, one equation per method of the source.\<close>

fun IsTerminal :: "ProtocolState \<Rightarrow> bool" where
  "IsTerminal ChannelActive = False"
| "IsTerminal (ShutdownPending _ _) = False"
| "IsTerminal (ChannelFlushing _ _ _) = False"
| "IsTerminal (ClosingNegotiation _ _) = False"
| "IsTerminal (LocalCloseStart _) = False"
| "IsTerminal (LocalOfferSent _ _ _ _) = False"
| "IsTerminal (ClosePending _ _) = True"
| "IsTerminal (CloseFin _) = True"
| "IsTerminal (RemoteCloseStart _) = False"

subsection \<open>Routing inside the composite state\<close>

text \<open>
  \<open>ShouldRouteTo\<close> of the four types that implement \<open>AsymmetricPeerState\<close>: each is a
  type switch on the event, and reads no field of its receiver.
\<close>

fun LocalCloseStart_ShouldRouteTo :: "ProtocolEvent \<Rightarrow> bool" where
  "LocalCloseStart_ShouldRouteTo (SendOfferEvent _) = True"
| "LocalCloseStart_ShouldRouteTo _ = False"

fun LocalOfferSent_ShouldRouteTo :: "ProtocolEvent \<Rightarrow> bool" where
  "LocalOfferSent_ShouldRouteTo (LocalSigReceived _) = True"
| "LocalOfferSent_ShouldRouteTo _ = False"

fun ClosePending_ShouldRouteTo :: "ProtocolEvent \<Rightarrow> bool" where
  "ClosePending_ShouldRouteTo (SpendEvent _ _) = True"
| "ClosePending_ShouldRouteTo _ = False"

fun RemoteCloseStart_ShouldRouteTo :: "ProtocolEvent \<Rightarrow> bool" where
  "RemoteCloseStart_ShouldRouteTo (OfferReceivedEvent _) = True"
| "RemoteCloseStart_ShouldRouteTo _ = False"

text \<open>
  The method by its receiver: \<open>None\<close> for a state that is no \<open>AsymmetricPeerState\<close>.
\<close>

fun ShouldRouteTo :: "ProtocolState \<Rightarrow> ProtocolEvent \<Rightarrow> bool option" where
  "ShouldRouteTo (LocalCloseStart _) e = Some (LocalCloseStart_ShouldRouteTo e)"
| "ShouldRouteTo (LocalOfferSent _ _ _ _) e = Some (LocalOfferSent_ShouldRouteTo e)"
| "ShouldRouteTo (ClosePending _ _) e = Some (ClosePending_ShouldRouteTo e)"
| "ShouldRouteTo (RemoteCloseStart _) e = Some (RemoteCloseStart_ShouldRouteTo e)"
| "ShouldRouteTo _ e = None"

subsection \<open>Close terms: outputs, dust and fees\<close>

text \<open>
  \<open>lnwire.MilliSatoshi.ToSatoshis\<close> and \<open>lnwallet.DustLimitForSize\<close> belong to
  packages that are not among the sources, so the functions below take them as the
  parameters \<open>toSat\<close> and \<open>dustLimitForSize\<close>; the script length \<open>len(pkScript)\<close> is
  a natural number.
\<close>

definition deriveTxOut :: "(nat \<Rightarrow> Amount) \<Rightarrow> Amount \<Rightarrow> bytes \<Rightarrow> TxOut option" where
  "deriveTxOut dustLimitForSize balance pkScript =
     (let dustLimit = dustLimitForSize (length pkScript)
      in if dustLimit <s balance
         then Some \<lparr>PkScript = pkScript, Value = balance\<rparr>
         else None)"

definition DeriveCloseTxOuts ::
  "(MilliSatoshi \<Rightarrow> Amount) \<Rightarrow> (nat \<Rightarrow> Amount) \<Rightarrow> CloseChannelTerms
     \<Rightarrow> TxOut option \<times> TxOut option" where
  "DeriveCloseTxOuts toSat dustLimitForSize c =
     (let localTxOut = deriveTxOut dustLimitForSize
            (toSat (LocalBalance (Balances c))) (LocalDeliveryScript (Scripts c));
          remoteTxOut = deriveTxOut dustLimitForSize
            (toSat (RemoteBalance (Balances c))) (RemoteDeliveryScript (Scripts c))
      in (localTxOut, remoteTxOut))"

definition RemoteAmtIsDust ::
  "(MilliSatoshi \<Rightarrow> Amount) \<Rightarrow> (nat \<Rightarrow> Amount) \<Rightarrow> CloseChannelTerms \<Rightarrow> bool" where
  "RemoteAmtIsDust toSat dustLimitForSize c =
     (toSat (RemoteBalance (Balances c))
        <s dustLimitForSize (length (RemoteDeliveryScript (Scripts c))))"

definition LocalAmtIsDust ::
  "(MilliSatoshi \<Rightarrow> Amount) \<Rightarrow> (nat \<Rightarrow> Amount) \<Rightarrow> CloseChannelTerms \<Rightarrow> bool" where
  "LocalAmtIsDust toSat dustLimitForSize c =
     (toSat (LocalBalance (Balances c))
        <s dustLimitForSize (length (LocalDeliveryScript (Scripts c))))"

definition LocalCanPayFees :: "(MilliSatoshi \<Rightarrow> Amount) \<Rightarrow> CloseChannelTerms \<Rightarrow> Amount \<Rightarrow> bool" where
  "LocalCanPayFees toSat c absoluteFee = (absoluteFee \<le>s toSat (LocalBalance (Balances c)))"

definition RemoteCanPayFees :: "(MilliSatoshi \<Rightarrow> Amount) \<Rightarrow> CloseChannelTerms \<Rightarrow> Amount \<Rightarrow> bool" where
  "RemoteCanPayFees toSat c absoluteFee = (absoluteFee \<le>s toSat (RemoteBalance (Balances c)))"

section \<open>The state machine driver (protofsm/state\_machine.go)\<close>

subsection \<open>Events, effects and transitions\<close>

text \<open>
  A Go \<open>error\<close> is a message, or a message wrapping another error
  (\<open>fmt.Errorf("...: %w", err)\<close>). The type name that \<open>%T\<close> appends to
  "unknown daemon event" is left out of the message. An \<open>fn.Option\<close> is an
  \<open>option\<close>: \<open>IsSome\<close>, \<open>WhenSome\<close>, \<open>UnwrapOr\<close> and \<open>MapOptionZ\<close> (which gives
  the zero value, \<open>nil\<close> or \<open>false\<close>, for \<open>None\<close>) are case distinctions.
\<close>

datatype error = Error string | Wrap string error

text \<open>
  The daemon events that \<open>executeDaemonEvent\<close> switches on, with the fields it reads;
  \<open>OtherDaemonEvent\<close> is any value of the interface that matches no case of the
  switch. A \<open>SendPredicate\<close> is polled by a goroutine of its own: it is kept as
  the answers it gives at the successive polls.
\<close>

datatype 'ev DaemonEvent =
    SendMsgEvent (TargetPeer: PublicKey) (Msgs: "Message list")
      (SendWhen: "bool list option") (PostSendEvent: "'ev option")
  | DisableChannelEvent (ChanPoint: OutPoint)
  | BroadcastTxn (BroadcastTx: MsgTx) (BroadcastLabel: string)
  | RegisterSpend (SpendOutPoint: OutPoint) (SpendPkScript: bytes)
      (SpendHeightHint: "32 word") (PostSpendEvent: "'ev option")
  | RegisterConf (Txid: Hash) (ConfPkScript: bytes) (NumConfs: "32 word option")
      (ConfHeightHint: "32 word") (PostConfEvent: "'ev option")
  | OtherDaemonEvent

record 'ev EmittedEvent =
  InternalEvent :: "'ev option"
  ExternalEvents :: "'ev DaemonEvent list option"

record ('ev, 'st) StateTransition =
  NextState :: 'st
  NewEvents :: "'ev EmittedEvent option"

text \<open>
  The interface \<open>State\<close>: its two methods, as functions of the state value. A state
  whose \<open>ProcessEvent\<close> returns neither a transition nor an error makes the driver
  panic and is not a value of this type.
\<close>

record ('ev, 'st, 'env) State =
  State_ProcessEvent :: "'st \<Rightarrow> 'ev \<Rightarrow> 'env \<Rightarrow> error + ('ev, 'st) StateTransition"
  State_IsTerminal :: "'st \<Rightarrow> bool"

subsection \<open>What the driver does to the world\<close>

text \<open>The calls of the interface \<open>DaemonAdapters\<close>, with their arguments.\<close>

datatype AdapterCall =
    SendMessages PublicKey "Message list"
  | BroadcastTransaction MsgTx string
  | DisableChannel OutPoint
  | RegisterConfirmationsNtfn Hash bytes "32 word" "32 word"
  | RegisterSpendNtfn OutPoint bytes "32 word"

text \<open>
  The goroutines the driver starts: the sender of a post-send event, the poller of a
  predicated send, the waiters on a spend and on a confirmation notification (each
  with the event it sends back), and \<open>go s.Stop()\<close>.
\<close>

datatype 'ev Task =
    PostSendTask 'ev
  | SendWhenTask "'ev DaemonEvent"
  | SpendWaitTask "'ev option"
  | ConfWaitTask "'ev option"
  | StopTask

text \<open>
  The driver's effects are kept as the list of its actions, oldest first: a call of
  \<open>ProcessEvent\<close> (the state it is called on, and the event), of
  \<open>executeDaemonEvent\<close>, of an adapter, a goroutine started, an internal event put
  into the queue, a state sent to the subscribers, \<open>Env.CleanUp\<close>,
  \<open>ErrorReporter.ReportError\<close>, and a state sent in answer to a query.
\<close>

datatype ('ev, 'st) Action =
    ProcessEventCall 'st 'ev
  | ExecuteDaemonEvent "'ev DaemonEvent"
  | DaemonCall AdapterCall
  | Go "'ev Task"
  | Enqueue 'ev
  | NotifySubscribers 'st
  | CleanUpCall
  | ReportError error
  | QueryReply 'st

text \<open>
  \<open>StateMachineCfg\<close>. The adapters are outside the program: \<open>Daemon\<close> gives the
  error an adapter call returns (\<open>None\<close> for \<open>nil\<close>), which may depend on everything
  done so far. The error reporter is the action \<open>ReportError\<close>.
\<close>

record ('ev, 'st, 'env) StateMachineCfg =
  Daemon :: "('ev, 'st) Action list \<Rightarrow> AdapterCall \<Rightarrow> error option"
  InitialState :: 'st
  Env :: 'env
  InitEvent :: "'ev DaemonEvent option"
  MsgMapper :: "(Message \<Rightarrow> 'ev option) option"

subsection \<open>Channels\<close>

text \<open>
  Modelled from the spec: the package \<open>fn\<close> (\<open>SendOrQuit\<close>, \<open>RecvOrTimeout\<close>,
  \<open>Queue\<close>) is not among the sources. A \<open>select\<close> between a channel operation and
  the quit signal takes one of the two cases, and which one is the scheduler's choice:
  \<open>SendOrQuit\<close> is true when the send was taken. \<open>RecvOrTimeout\<close> returns what
  arrived within the bounded wait, or a timeout error. The queue is first in, first
  out: \<open>Enqueue\<close> adds at the tail, \<open>Dequeue\<close> takes the head.
\<close>

datatype Chosen = SendCase | QuitCase

definition SendOrQuit :: "Chosen \<Rightarrow> bool" where
  "SendOrQuit chosen = (chosen = SendCase)"

definition RecvOrTimeout :: "'a option \<Rightarrow> error + 'a" where
  "RecvOrTimeout arrived =
     (case arrived of None \<Rightarrow> Inl (Error ''timeout hit'') | Some v \<Rightarrow> Inr v)"

subsection \<open>Messages and queries\<close>

text \<open>
  \<open>SendEvent\<close> selects between the send into \<open>s.events\<close> and the quit signal; the
  result is what reached the events channel.
\<close>

definition SendEvent :: "Chosen \<Rightarrow> 'ev \<Rightarrow> 'ev list" where
  "SendEvent chosen event = (case chosen of SendCase \<Rightarrow> [event] | QuitCase \<Rightarrow> [])"

definition CanHandle :: "('ev, 'st, 'env) StateMachineCfg \<Rightarrow> Message \<Rightarrow> bool" where
  "CanHandle cfg msg =
     (case MsgMapper cfg of None \<Rightarrow> False | Some mapper \<Rightarrow> mapper msg \<noteq> None)"

text \<open>\<open>SendMessage\<close> returns \<open>processed\<close>, and what reached the events channel.\<close>

definition SendMessage ::
  "('ev, 'st, 'env) StateMachineCfg \<Rightarrow> Chosen \<Rightarrow> Message \<Rightarrow> bool \<times> 'ev list" where
  "SendMessage cfg chosen msg =
     (if Option.is_none (MsgMapper cfg) then (False, [])
      else case MsgMapper cfg of
             None \<Rightarrow> (False, [])
           | Some mapper \<Rightarrow>
               (case mapper msg of
                  None \<Rightarrow> (False, [])
                | Some event \<Rightarrow> (True, SendEvent chosen event)))"

text \<open>
  \<open>CurrentState\<close>: \<open>chosen\<close> is the case taken when the query is sent to the driver,
  \<open>arrived\<close> what the driver put into the query's reply channel within the second
  the caller waits.
\<close>

definition CurrentState :: "Chosen \<Rightarrow> 'st option \<Rightarrow> error + 'st" where
  "CurrentState chosen arrived =
     (if \<not> SendOrQuit chosen then Inl (Error ''state machine is shutting down'')
      else RecvOrTimeout arrived)"

subsection \<open>Executing daemon events\<close>

definition sendAndCleanUp ::
  "('ev, 'st, 'env) StateMachineCfg \<Rightarrow> PublicKey \<Rightarrow> Message list \<Rightarrow> 'ev option
     \<Rightarrow> ('ev, 'st) Action list \<Rightarrow> error option \<times> ('ev, 'st) Action list" where
  "sendAndCleanUp cfg peer msgs postSend tr =
     (case Daemon cfg tr (SendMessages peer msgs) of
        Some err \<Rightarrow>
          (Some (Wrap ''unable to send msgs'' err), tr @ [DaemonCall (SendMessages peer msgs)])
      | None \<Rightarrow>
          (None, tr @ [DaemonCall (SendMessages peer msgs)]
                    @ (case postSend of None \<Rightarrow> [] | Some event \<Rightarrow> [Go (PostSendTask event)])))"

text \<open>
  \<open>executeDaemonEvent\<close>, case by case. The case of \<open>RegisterConf\<close> ends without a
  \<open>return\<close>, so after a registration that succeeded, control reaches the statement
  after the switch, which returns the error for an unknown event.
\<close>

definition executeDaemonEvent ::
  "('ev, 'st, 'env) StateMachineCfg \<Rightarrow> 'ev DaemonEvent
     \<Rightarrow> ('ev, 'st) Action list \<Rightarrow> error option \<times> ('ev, 'st) Action list" where
  "executeDaemonEvent cfg event tr0 =
     (let tr = tr0 @ [ExecuteDaemonEvent event] in
      case event of
        SendMsgEvent peer msgs sendWhen postSend \<Rightarrow>
          (if Option.is_none sendWhen then sendAndCleanUp cfg peer msgs postSend tr
           else (None, tr @ [Go (SendWhenTask event)]))
      | DisableChannelEvent chanPoint \<Rightarrow>
          (case Daemon cfg tr (DisableChannel chanPoint) of
             Some err \<Rightarrow>
               (Some (Wrap ''unable to disable channel'' err),
                tr @ [DaemonCall (DisableChannel chanPoint)])
           | None \<Rightarrow> (None, tr @ [DaemonCall (DisableChannel chanPoint)]))
      | BroadcastTxn tx label \<Rightarrow>
          (case Daemon cfg tr (BroadcastTransaction tx label) of
             Some err \<Rightarrow>
               (Some (Wrap ''unable to broadcast txn'' err),
                tr @ [DaemonCall (BroadcastTransaction tx label)])
           | None \<Rightarrow> (None, tr @ [DaemonCall (BroadcastTransaction tx label)]))
      | RegisterSpend outPoint pkScript heightHint postSpend \<Rightarrow>
          (case Daemon cfg tr (RegisterSpendNtfn outPoint pkScript heightHint) of
             Some err \<Rightarrow>
               (Some (Wrap ''unable to register spend'' err),
                tr @ [DaemonCall (RegisterSpendNtfn outPoint pkScript heightHint)])
           | None \<Rightarrow>
               (None, tr @ [DaemonCall (RegisterSpendNtfn outPoint pkScript heightHint),
                            Go (SpendWaitTask postSpend)]))
      | RegisterConf txid pkScript numConfsOpt heightHint postConf \<Rightarrow>
          (let numConfs = (case numConfsOpt of None \<Rightarrow> 1 | Some n \<Rightarrow> n) in
           case Daemon cfg tr (RegisterConfirmationsNtfn txid pkScript numConfs heightHint) of
             Some err \<Rightarrow>
               (Some (Wrap ''unable to register conf'' err),
                tr @ [DaemonCall (RegisterConfirmationsNtfn txid pkScript numConfs heightHint)])
           | None \<Rightarrow>
               (Some (Error ''unknown daemon event''),
                tr @ [DaemonCall (RegisterConfirmationsNtfn txid pkScript numConfs heightHint),
                      Go (ConfWaitTask postConf)]))
      | OtherDaemonEvent \<Rightarrow> (Some (Error ''unknown daemon event''), tr))"

text \<open>The loop over the daemon events of one transition: it stops at the first error.\<close>

fun executeDaemonEvents ::
  "('ev, 'st, 'env) StateMachineCfg \<Rightarrow> 'ev DaemonEvent list
     \<Rightarrow> ('ev, 'st) Action list \<Rightarrow> error option \<times> ('ev, 'st) Action list" where
  "executeDaemonEvents cfg [] tr = (None, tr)"
| "executeDaemonEvents cfg (dEvent # dEvents) tr =
     (case executeDaemonEvent cfg dEvent tr of
        (Some err, tr') \<Rightarrow> (Some err, tr')
      | (None, tr') \<Rightarrow> executeDaemonEvents cfg dEvents tr')"

subsection \<open>Applying events\<close>

text \<open>
  The body of the loop of \<open>applyEvents\<close>, the closure that handles one event taken
  from the queue: it returns the error, and the variables \<open>currentState\<close> and
  \<open>eventQueue\<close> as it leaves them.
\<close>

definition applyEventsBody ::
  "('ev, 'st, 'env) State \<Rightarrow> ('ev, 'st, 'env) StateMachineCfg \<Rightarrow> 'st \<Rightarrow> 'ev list \<Rightarrow> 'ev
     \<Rightarrow> ('ev, 'st) Action list
     \<Rightarrow> error option \<times> 'st \<times> 'ev list \<times> ('ev, 'st) Action list" where
  "applyEventsBody ops cfg currentState eventQueue event tr0 =
     (let tr = tr0 @ [ProcessEventCall currentState event] in
      case State_ProcessEvent ops currentState event (Env cfg) of
        Inl err \<Rightarrow> (Some err, currentState, eventQueue, tr)
      | Inr transition \<Rightarrow>
          (case (case NewEvents transition of
                   None \<Rightarrow> (None, eventQueue, tr)
                 | Some events \<Rightarrow>
                     (case (case ExternalEvents events of
                              None \<Rightarrow> (None, tr)
                            | Some dEvents \<Rightarrow> executeDaemonEvents cfg dEvents tr) of
                        (Some err, tr1) \<Rightarrow> (Some err, eventQueue, tr1)
                      | (None, tr1) \<Rightarrow>
                          (case InternalEvent events of
                             None \<Rightarrow> (None, eventQueue, tr1)
                           | Some inEvent \<Rightarrow>
                               (None, eventQueue @ [inEvent], tr1 @ [Enqueue inEvent])))) of
             (Some err, queue, tr2) \<Rightarrow> (Some err, currentState, queue, tr2)
           | (None, queue, tr2) \<Rightarrow>
               (None, NextState transition, queue,
                tr2 @ [NotifySubscribers (NextState transition)])))"

text \<open>
  The loop of \<open>applyEvents\<close>: it runs until the queue is empty or an event fails. A
  state machine whose states keep emitting internal events never leaves it, so the
  result is an option, and \<open>None\<close> is the run that does not return.
\<close>

partial_function (option) applyLoop ::
  "('ev, 'st, 'env) State \<Rightarrow> ('ev, 'st, 'env) StateMachineCfg \<Rightarrow> 'st \<Rightarrow> 'ev list
     \<Rightarrow> ('ev, 'st) Action list \<Rightarrow> ('st \<times> error option \<times> ('ev, 'st) Action list) option" where
  "applyLoop ops cfg currentState eventQueue tr =
     (case eventQueue of
        [] \<Rightarrow> Some (currentState, None, tr)
      | event # rest \<Rightarrow>
          (case applyEventsBody ops cfg currentState rest event tr of
             (Some err, st, queue, tr') \<Rightarrow> Some (st, Some err, tr')
           | (None, st, queue, tr') \<Rightarrow> applyLoop ops cfg st queue tr'))"

declare applyLoop.simps [code]

definition applyEvents ::
  "('ev, 'st, 'env) State \<Rightarrow> ('ev, 'st, 'env) StateMachineCfg \<Rightarrow> 'st \<Rightarrow> 'ev
     \<Rightarrow> ('ev, 'st) Action list \<Rightarrow> ('st \<times> error option \<times> ('ev, 'st) Action list) option" where
  "applyEvents ops cfg currentState newEvent tr = applyLoop ops cfg currentState [newEvent] tr"

subsection \<open>The main loop\<close>

text \<open>
  What the \<open>select\<close> of \<open>driveMachine\<close> receives, in the order the scheduler delivers
  it: a new event, a state query (with the case taken when the driver sends its
  answer), or the quit signal. The driver either returned, or waits in its \<open>select\<close>
  when the list is used up.
\<close>

datatype 'ev Received = NewEvent 'ev | StateQuery Chosen | QuitSignal

datatype Driver = Waiting | Returned

fun driveLoop ::
  "('ev, 'st, 'env) State \<Rightarrow> ('ev, 'st, 'env) StateMachineCfg \<Rightarrow> 'st \<Rightarrow> 'ev Received list
     \<Rightarrow> ('ev, 'st) Action list \<Rightarrow> (Driver \<times> 'st \<times> ('ev, 'st) Action list) option" where
  "driveLoop ops cfg currentState [] tr = Some (Waiting, currentState, tr)"
| "driveLoop ops cfg currentState (NewEvent newEvent # sched) tr =
     (case applyEvents ops cfg currentState newEvent tr of
        None \<Rightarrow> None
      | Some (newState, Some err, tr') \<Rightarrow>
          Some (Returned, currentState, tr' @ [ReportError err, Go StopTask])
      | Some (newState, None, tr') \<Rightarrow>
          (if State_IsTerminal ops newState
           then driveLoop ops cfg newState sched (tr' @ [CleanUpCall])
           else driveLoop ops cfg newState sched tr'))"
| "driveLoop ops cfg currentState (StateQuery chosen # sched) tr =
     (if \<not> SendOrQuit chosen then Some (Returned, currentState, tr)
      else driveLoop ops cfg currentState sched (tr @ [QueryReply currentState]))"
| "driveLoop ops cfg currentState (QuitSignal # sched) tr = Some (Returned, currentState, tr)"

definition driveMachine ::
  "('ev, 'st, 'env) State \<Rightarrow> ('ev, 'st, 'env) StateMachineCfg \<Rightarrow> 'ev Received list
     \<Rightarrow> (Driver \<times> 'st \<times> ('ev, 'st) Action list) option" where
  "driveMachine ops cfg sched =
     (let currentState = InitialState cfg in
      case (case InitEvent cfg of
              None \<Rightarrow> (None, [])
            | Some event \<Rightarrow> executeDaemonEvent cfg event []) of
        (Some err, tr) \<Rightarrow> Some (Returned, currentState, tr)
      | (None, tr) \<Rightarrow> driveLoop ops cfg currentState sched (tr @ [NotifySubscribers currentState]))"

subsection \<open>Reading the list of actions\<close>

text \<open>
  What a list of actions holds of one kind, in order: the daemon events executed, the
  events handed to \<open>ProcessEvent\<close>, the internal events put into the queue, the
  states sent to the subscribers (the committed states). \<open>lastCommitted c T\<close> is the
  last state committed in \<open>T\<close>, and \<open>c\<close> when there is none; \<open>cleanups\<close> counts the
  calls of \<open>CleanUp\<close>.
\<close>

fun executed :: "('ev, 'st) Action list \<Rightarrow> 'ev DaemonEvent list" where
  "executed [] = []"
| "executed (ExecuteDaemonEvent d # T) = d # executed T"
| "executed (_ # T) = executed T"

fun processed :: "('ev, 'st) Action list \<Rightarrow> 'ev list" where
  "processed [] = []"
| "processed (ProcessEventCall s e # T) = e # processed T"
| "processed (_ # T) = processed T"

fun enqueued :: "('ev, 'st) Action list \<Rightarrow> 'ev list" where
  "enqueued [] = []"
| "enqueued (Enqueue e # T) = e # enqueued T"
| "enqueued (_ # T) = enqueued T"

fun committed :: "('ev, 'st) Action list \<Rightarrow> 'st list" where
  "committed [] = []"
| "committed (NotifySubscribers s # T) = s # committed T"
| "committed (_ # T) = committed T"

fun lastCommitted :: "'st \<Rightarrow> ('ev, 'st) Action list \<Rightarrow> 'st" where
  "lastCommitted c [] = c"
| "lastCommitted c (NotifySubscribers s # T) = lastCommitted s T"
| "lastCommitted c (_ # T) = lastCommitted c T"

fun cleanups :: "('ev, 'st) Action list \<Rightarrow> nat" where
  "cleanups [] = 0"
| "cleanups (CleanUpCall # T) = Suc (cleanups T)"
| "cleanups (_ # T) = cleanups T"

text \<open>
  \<open>repliesCommitted c T\<close>: every answer to a state query in \<open>T\<close> is the state that
  was committed last before it (\<open>c\<close> is the one committed before \<open>T\<close>, if any).
\<close>

fun repliesCommitted :: "'st option \<Rightarrow> ('ev, 'st) Action list \<Rightarrow> bool" where
  "repliesCommitted c [] = True"
| "repliesCommitted c (NotifySubscribers s # T) = repliesCommitted (Some s) T"
| "repliesCommitted c (QueryReply s # T) = (c = Some s \<and> repliesCommitted c T)"
| "repliesCommitted c (_ # T) = repliesCommitted c T"

fun noReplies :: "('ev, 'st) Action list \<Rightarrow> bool" where
  "noReplies [] = True"
| "noReplies (QueryReply s # T) = False"
| "noReplies (_ # T) = noReplies T"

text \<open>
  A stretch of actions that only executes daemon events: no event is processed or
  put into the queue, no state is committed, no query is answered.
\<close>

definition effectOnly :: "('ev, 'st) Action list \<Rightarrow> bool" where
  "effectOnly X = (processed X = [] \<and> enqueued X = [] \<and> committed X = [] \<and> noReplies X)"

subsection \<open>Inputs for the concrete runs\<close>

text \<open>
  A small state machine to run the driver on: states and events are numbers. The
  event 0 is refused with an error, the event 1 moves to the next state and emits
  nothing, and an event \<open>n > 1\<close> moves to the next state, asks for a channel to be
  disabled and a transaction to be broadcast, and emits the internal event \<open>n - 2\<close>.
  A state is terminal from 2 on. \<open>quietCfg\<close> has adapters that never fail,
  \<open>rejectingCfg\<close> adapters that refuse every broadcast. \<open>atDustLimit\<close> are close
  terms with both balances at 294 satoshis and scripts of 22 bytes.
\<close>

definition countdown :: "(nat, nat, unit) State" where
  "countdown =
     \<lparr>State_ProcessEvent = (\<lambda>s n env.
         if n = 0 then Inl (Error ''invalid state transition'')
         else if n = 1 then Inr \<lparr>NextState = Suc s, NewEvents = None\<rparr>
         else Inr \<lparr>NextState = Suc s,
                   NewEvents = Some \<lparr>InternalEvent = Some (n - 2),
                     ExternalEvents = Some [DisableChannelEvent \<lparr>OutHash = [], OutIndex = 0\<rparr>,
                                            BroadcastTxn [1] ''close'']\<rparr>\<rparr>),
      State_IsTerminal = (\<lambda>s. 2 \<le> s)\<rparr>"

definition quietCfg :: "(nat, nat, unit) StateMachineCfg" where
  "quietCfg = \<lparr>Daemon = (\<lambda>tr call. None), InitialState = 0, Env = (),
               InitEvent = None, MsgMapper = None\<rparr>"


definition rejectingCfg :: "(nat, nat, unit) StateMachineCfg" where
  "rejectingCfg =
     \<lparr>Daemon = (\<lambda>tr call. case call of
                   BroadcastTransaction tx label \<Rightarrow> Some (Error ''rejected'')
                 | _ \<Rightarrow> None),
      InitialState = 0, Env = (), InitEvent = None, MsgMapper = None\<rparr>"

definition atDustLimit :: CloseChannelTerms where
  "atDustLimit =
     \<lparr>Balances = \<lparr>LocalBalance = 294000, RemoteBalance = 294999\<rparr>,
      Scripts = \<lparr>LocalDeliveryScript = replicate 22 0, RemoteDeliveryScript = replicate 22 0\<rparr>\<rparr>"

section \<open>Properties\<close>

subsection \<open>The close states\<close>

text \<open>
  Claim C1. The claim: \<open>CloseFin\<close> is the only terminal state, and
  \<open>ClosePending.IsTerminal()\<close> returns false. The code: \<open>IsTerminal\<close> returns true
  for exactly two states, \<open>ClosePending\<close> and \<open>CloseFin\<close>.
\<close>

theorem IsTerminal_exactly_ClosePending_and_CloseFin:
  "IsTerminal s = ((\<exists>tx feeRate. s = ClosePending tx feeRate) \<or> (\<exists>tx. s = CloseFin tx))"
  by (cases s) simp_all

text \<open>
  Claim C9. \<open>LocalCanPayFees\<close> is true iff the local balance in satoshis is greater
  than or equal to the absolute fee, and \<open>RemoteCanPayFees\<close> iff the remote balance
  is, both read as signed 64-bit amounts.
\<close>

theorem CanPayFees_iff_balance_covers_fee:
  "LocalCanPayFees toSat c absoluteFee
     = (sint absoluteFee \<le> sint (toSat (LocalBalance (Balances c)))) \<and>
   RemoteCanPayFees toSat c absoluteFee
     = (sint absoluteFee \<le> sint (toSat (RemoteBalance (Balances c))))"
  by (simp add: LocalCanPayFees_def RemoteCanPayFees_def word_sle_eq)

text \<open>
  Claim C10. For every event, a local sub-state (\<open>LocalCloseStart\<close> or
  \<open>LocalOfferSent\<close>) and the remote sub-state \<open>RemoteCloseStart\<close> never both
  answer true to \<open>ShouldRouteTo\<close>: \<open>LocalCloseStart\<close> accepts exactly the
  \<open>SendOfferEvent\<close>s, \<open>LocalOfferSent\<close> exactly the \<open>LocalSigReceived\<close>s and
  \<open>RemoteCloseStart\<close> exactly the \<open>OfferReceivedEvent\<close>s.
\<close>

theorem ShouldRouteTo_local_remote_disjoint:
  "\<not> (ShouldRouteTo (LocalCloseStart lt) e = Some True \<and>
      ShouldRouteTo (RemoteCloseStart rt) e = Some True) \<and>
   \<not> (ShouldRouteTo (LocalOfferSent fee rate lsig lt) e = Some True \<and>
      ShouldRouteTo (RemoteCloseStart rt) e = Some True) \<and>
   (LocalCloseStart_ShouldRouteTo e = (\<exists>r. e = SendOfferEvent r)) \<and>
   (LocalOfferSent_ShouldRouteTo e = (\<exists>m. e = LocalSigReceived m)) \<and>
   (RemoteCloseStart_ShouldRouteTo e = (\<exists>m. e = OfferReceivedEvent m))"
  by (cases e) simp_all

lemma deriveTxOut_None_iff:
  "(deriveTxOut dl balance pkScript = None) = (sint balance \<le> sint (dl (length pkScript)))"
  by (simp add: deriveTxOut_def Let_def word_sless_alt not_less)

text \<open>
  Claim C4. The claim: a side's output is in the close transaction iff it is not
  dust. The code: \<open>LocalAmtIsDust\<close> tests \<open>balance < limit\<close> while \<open>deriveTxOut\<close>
  keeps the output only when \<open>balance > limit\<close>, so the two disagree exactly when the
  balance in satoshis equals the dust limit of the script: the output is then not
  dust, and it is left out all the same. \<open>atDustLimit\<close> is such a value, with 294000
  and 294999 millisatoshis against a limit of 294 satoshis.
\<close>

theorem dust_test_and_close_output_disagree_at_limit:
  "LocalAmtIsDust toSat dl c
     = (sint (toSat (LocalBalance (Balances c)))
          < sint (dl (length (LocalDeliveryScript (Scripts c))))) \<and>
   RemoteAmtIsDust toSat dl c
     = (sint (toSat (RemoteBalance (Balances c)))
          < sint (dl (length (RemoteDeliveryScript (Scripts c))))) \<and>
   ((\<not> LocalAmtIsDust toSat dl c \<and> fst (DeriveCloseTxOuts toSat dl c) = None)
      = (toSat (LocalBalance (Balances c)) = dl (length (LocalDeliveryScript (Scripts c))))) \<and>
   ((\<not> RemoteAmtIsDust toSat dl c \<and> snd (DeriveCloseTxOuts toSat dl c) = None)
      = (toSat (RemoteBalance (Balances c)) = dl (length (RemoteDeliveryScript (Scripts c))))) \<and>
   \<not> LocalAmtIsDust (\<lambda>m. m div 1000) (\<lambda>n. 294) atDustLimit \<and>
   \<not> RemoteAmtIsDust (\<lambda>m. m div 1000) (\<lambda>n. 294) atDustLimit \<and>
   DeriveCloseTxOuts (\<lambda>m. m div 1000) (\<lambda>n. 294) atDustLimit = (None, None)"
proof -
  have eq: "\<And>a b :: 64 word. (\<not> sint a < sint b \<and> sint a \<le> sint b) = (a = b)"
    by (auto intro: signed_word_eqI)
  have l: "(\<not> LocalAmtIsDust toSat dl c \<and> fst (DeriveCloseTxOuts toSat dl c) = None)
      = (toSat (LocalBalance (Balances c)) = dl (length (LocalDeliveryScript (Scripts c))))"
    by (simp add: LocalAmtIsDust_def DeriveCloseTxOuts_def Let_def deriveTxOut_None_iff
        word_sless_alt eq)
  have r: "(\<not> RemoteAmtIsDust toSat dl c \<and> snd (DeriveCloseTxOuts toSat dl c) = None)
      = (toSat (RemoteBalance (Balances c)) = dl (length (RemoteDeliveryScript (Scripts c))))"
    by (simp add: RemoteAmtIsDust_def DeriveCloseTxOuts_def Let_def deriveTxOut_None_iff
        word_sless_alt eq)
  have d: "(294000 :: 64 word) div 1000 = 294" "(294999 :: 64 word) div 1000 = 294"
    by simp_all
  have c1: "\<not> LocalAmtIsDust (\<lambda>m. m div 1000) (\<lambda>n. 294) atDustLimit"
    by (simp add: LocalAmtIsDust_def atDustLimit_def d)
  have c2: "\<not> RemoteAmtIsDust (\<lambda>m. m div 1000) (\<lambda>n. 294) atDustLimit"
    by (simp add: RemoteAmtIsDust_def atDustLimit_def d)
  have c3: "DeriveCloseTxOuts (\<lambda>m. m div 1000) (\<lambda>n. 294) atDustLimit = (None, None)"
    by (simp add: DeriveCloseTxOuts_def deriveTxOut_def atDustLimit_def d)
  have dl: "LocalAmtIsDust toSat dl c
     = (sint (toSat (LocalBalance (Balances c)))
          < sint (dl (length (LocalDeliveryScript (Scripts c)))))"
    by (simp add: LocalAmtIsDust_def word_sless_alt)
  have dr: "RemoteAmtIsDust toSat dl c
     = (sint (toSat (RemoteBalance (Balances c)))
          < sint (dl (length (RemoteDeliveryScript (Scripts c)))))"
    by (simp add: RemoteAmtIsDust_def word_sless_alt)
  show ?thesis using dl dr l r c1 c2 c3 by blast
qed

subsection \<open>Messages\<close>

text \<open>
  Claim C7. \<open>CanHandle\<close> of a message is the value \<open>SendMessage\<close> returns for it,
  whatever the \<open>select\<close> inside \<open>SendEvent\<close> takes; with no mapper configured both
  are false.
\<close>

theorem CanHandle_iff_SendMessage:
  "CanHandle cfg msg = fst (SendMessage cfg chosen msg) \<and>
   \<not> CanHandle (cfg\<lparr>MsgMapper := None\<rparr>) msg \<and>
   \<not> fst (SendMessage (cfg\<lparr>MsgMapper := None\<rparr>) chosen msg)"
  by (simp add: CanHandle_def SendMessage_def Option.is_none_def split: option.splits)

subsection \<open>Daemon events\<close>

text \<open>
  Claim C2. The claim: a \<open>RegisterConf\<close> whose registration succeeds is executed
  without error. The code: the registration is made with \<open>numConfs\<close> defaulting to 1
  and the waiting goroutine is started, but \<open>executeDaemonEvent\<close> then returns the
  error "unknown daemon event".
\<close>

theorem executeDaemonEvent_RegisterConf_unknown_event:
  assumes "Daemon cfg (tr @ [ExecuteDaemonEvent (RegisterConf txid pkScript numConfs heightHint postConf)])
             (RegisterConfirmationsNtfn txid pkScript (case numConfs of None \<Rightarrow> 1 | Some n \<Rightarrow> n) heightHint)
           = None"
  shows "executeDaemonEvent cfg (RegisterConf txid pkScript numConfs heightHint postConf) tr =
           (Some (Error ''unknown daemon event''),
            tr @ [ExecuteDaemonEvent (RegisterConf txid pkScript numConfs heightHint postConf),
                  DaemonCall (RegisterConfirmationsNtfn txid pkScript
                                (case numConfs of None \<Rightarrow> 1 | Some n \<Rightarrow> n) heightHint),
                  Go (ConfWaitTask postConf)])"
  using assms by (simp add: executeDaemonEvent_def Let_def)

theorem executeDaemonEvent_RegisterConf_unknown_event_witness:
  "Daemon quietCfg ([] @ [ExecuteDaemonEvent (RegisterConf [1] [2] None 100 (Some 7))])
     (RegisterConfirmationsNtfn [1] [2] (case None of None \<Rightarrow> 1 | Some n \<Rightarrow> n) 100) = None \<and>
   executeDaemonEvent quietCfg (RegisterConf [1] [2] None 100 (Some 7)) [] =
     (Some (Error ''unknown daemon event''),
      [ExecuteDaemonEvent (RegisterConf [1] [2] None 100 (Some 7)),
       DaemonCall (RegisterConfirmationsNtfn [1] [2] 1 100),
       Go (ConfWaitTask (Some 7))])"
proof -
  have h: "Daemon quietCfg ([] @ [ExecuteDaemonEvent (RegisterConf [1] [2] None 100 (Some 7))])
     (RegisterConfirmationsNtfn [1] [2] (case None of None \<Rightarrow> 1 | Some n \<Rightarrow> n) 100) = None"
    by (simp add: quietCfg_def)
  show ?thesis
    using h executeDaemonEvent_RegisterConf_unknown_event [OF h] by simp
qed

subsection \<open>The actions of a burst\<close>

text \<open>The readings of a list of actions distribute over \<open>@\<close>.\<close>

lemma executed_append: "executed (A @ B) = executed A @ executed B"
  by (induction A rule: executed.induct) simp_all

lemma processed_append: "processed (A @ B) = processed A @ processed B"
  by (induction A rule: processed.induct) simp_all

lemma enqueued_append: "enqueued (A @ B) = enqueued A @ enqueued B"
  by (induction A rule: enqueued.induct) simp_all

lemma committed_append: "committed (A @ B) = committed A @ committed B"
  by (induction A rule: committed.induct) simp_all

lemma noReplies_append: "noReplies (A @ B) = (noReplies A \<and> noReplies B)"
  by (induction A rule: noReplies.induct) simp_all

lemma effectOnly_append: "effectOnly A \<Longrightarrow> effectOnly B \<Longrightarrow> effectOnly (A @ B)"
  by (simp add: effectOnly_def processed_append enqueued_append committed_append noReplies_append)

text \<open>
  Executing daemon events only adds actions of execution: one daemon event adds its
  own call and then adapter calls and goroutines; a list of them adds the calls of a
  prefix of the list, in order, and of the whole list when no error is returned.
\<close>

lemma executeDaemonEvent_trace:
  "executeDaemonEvent cfg d tr = (err, tr') \<Longrightarrow>
     \<exists>X. tr' = tr @ ExecuteDaemonEvent d # X \<and> executed X = [] \<and> effectOnly X"
  by (auto simp: executeDaemonEvent_def sendAndCleanUp_def Let_def effectOnly_def
      split: DaemonEvent.splits option.splits if_splits)

lemma executeDaemonEvents_trace:
  "executeDaemonEvents cfg ds tr = (err, tr') \<Longrightarrow>
     \<exists>X. tr' = tr @ X \<and> effectOnly X \<and> prefix (executed X) ds \<and> (err = None \<longrightarrow> executed X = ds)"
proof (induction ds arbitrary: tr)
  case Nil
  then show ?case by (simp add: effectOnly_def)
next
  case (Cons d ds)
  obtain e1 tr1 where d: "executeDaemonEvent cfg d tr = (e1, tr1)"
    by (cases "executeDaemonEvent cfg d tr")
  from executeDaemonEvent_trace [OF d] obtain X where
    X: "tr1 = tr @ ExecuteDaemonEvent d # X" "executed X = []" "effectOnly X"
    by blast
  have hd: "effectOnly (ExecuteDaemonEvent d # X)"
    using X(3) by (simp add: effectOnly_def)
  show ?case
  proof (cases e1)
    case None
    with Cons.prems d have "executeDaemonEvents cfg ds tr1 = (err, tr')" by simp
    from Cons.IH [OF this] obtain Y where
      Y: "tr' = tr1 @ Y" "effectOnly Y" "prefix (executed Y) ds" "err = None \<longrightarrow> executed Y = ds"
      by blast
    have "tr' = tr @ (ExecuteDaemonEvent d # X) @ Y" using X(1) Y(1) by simp
    moreover have "effectOnly ((ExecuteDaemonEvent d # X) @ Y)"
      by (rule effectOnly_append [OF hd Y(2)])
    moreover have "executed ((ExecuteDaemonEvent d # X) @ Y) = d # executed Y"
      using X(2) by (simp add: executed_append)
    ultimately show ?thesis using Y(3,4) by (intro exI [of _ "(ExecuteDaemonEvent d # X) @ Y"]) simp
  next
    case (Some e)
    with Cons.prems d have "err = Some e" "tr' = tr1" by simp_all
    then show ?thesis using X hd by (intro exI [of _ "ExecuteDaemonEvent d # X"]) simp
  qed
qed


lemma lastCommitted_append: "lastCommitted c (A @ B) = lastCommitted (lastCommitted c A) B"
  by (induction c A rule: lastCommitted.induct) simp_all

lemma effectOnly_lastCommitted: "effectOnly X \<Longrightarrow> lastCommitted c X = c"
  unfolding effectOnly_def
  by (induction c X rule: lastCommitted.induct) simp_all

text \<open>
  One pass of the loop body adds the call of \<open>ProcessEvent\<close> and then processes no
  further event; what it adds to the queue is what it put there, and the state it
  leaves is the last one it committed. The loop as a whole, when it returns: by
  induction over its unfoldings.
\<close>

lemma applyEventsBody_trace:
  assumes "applyEventsBody ops cfg cur q e tr = (err, st, q', tr')"
  shows "\<exists>T. tr' = tr @ ProcessEventCall cur e # T \<and> processed T = [] \<and> noReplies T \<and>
             q' = q @ enqueued T \<and> st = lastCommitted cur T \<and> (err \<noteq> None \<longrightarrow> st = cur)"
proof (cases "State_ProcessEvent ops cur e (Env cfg)")
  case (Inl a)
  with assms show ?thesis
    by (intro exI [of _ "[]"]) (auto simp: applyEventsBody_def)
next
  case (Inr t)
  show ?thesis
  proof (cases "NewEvents t")
    case None
    with Inr assms show ?thesis
      by (intro exI [of _ "[NotifySubscribers (NextState t)]"]) (auto simp: applyEventsBody_def)
  next
    case (Some em)
    obtain e1 tr1 where ex: "(case ExternalEvents em of None \<Rightarrow> (None, tr @ [ProcessEventCall cur e])
        | Some dEvents \<Rightarrow> executeDaemonEvents cfg dEvents (tr @ [ProcessEventCall cur e])) = (e1, tr1)"
      by (cases "(case ExternalEvents em of None \<Rightarrow> (None, tr @ [ProcessEventCall cur e])
        | Some dEvents \<Rightarrow> executeDaemonEvents cfg dEvents (tr @ [ProcessEventCall cur e]))")
    have "\<exists>X. tr1 = (tr @ [ProcessEventCall cur e]) @ X \<and> effectOnly X"
    proof (cases "ExternalEvents em")
      case None
      with ex show ?thesis by (simp add: effectOnly_def)
    next
      case (Some ds)
      with ex have "executeDaemonEvents cfg ds (tr @ [ProcessEventCall cur e]) = (e1, tr1)" by simp
      from executeDaemonEvents_trace [OF this] show ?thesis by blast
    qed
    then obtain X where X: "tr1 = (tr @ [ProcessEventCall cur e]) @ X" "effectOnly X" by blast
    have lc: "lastCommitted cur X = cur" by (rule effectOnly_lastCommitted [OF X(2)])
    from assms Inr Some ex X lc show ?thesis
      by (cases e1; cases "InternalEvent em")
         (auto simp: applyEventsBody_def effectOnly_def processed_append enqueued_append
            lastCommitted_append noReplies_append)
  qed
qed

lemma applyLoop_trace_aux:
  assumes "applyLoop ops cfg cur q tr = Some y"
  shows "\<exists>T. snd (snd y) = tr @ T \<and> noReplies T \<and> fst y = lastCommitted cur T \<and>
         prefix (processed T) (q @ enqueued T) \<and>
         (fst (snd y) = None \<longrightarrow> processed T = q @ enqueued T)"
  apply (rule applyLoop.raw_induct [where P = "\<lambda>ops cfg cur q tr y.
         \<exists>T. snd (snd y) = tr @ T \<and> noReplies T \<and> fst y = lastCommitted cur T \<and>
         prefix (processed T) (q @ enqueued T) \<and>
         (fst (snd y) = None \<longrightarrow> processed T = q @ enqueued T)", OF _ assms])
  subgoal premises prems for loop ops cfg cur q tr y
  proof (cases q)
    case Nil
    with prems(2) show ?thesis by auto
  next
    case (Cons e rest)
    obtain err st q' tr' where b: "applyEventsBody ops cfg cur rest e tr = (err, st, q', tr')"
      by (cases "applyEventsBody ops cfg cur rest e tr") auto
    from applyEventsBody_trace [OF b] obtain T where
      T0: "tr' = tr @ ProcessEventCall cur e # T \<and> processed T = [] \<and> noReplies T \<and>
         q' = rest @ enqueued T \<and> st = lastCommitted cur T \<and> (err \<noteq> None \<longrightarrow> st = cur)" ..
    have T: "tr' = tr @ ProcessEventCall cur e # T" "processed T = []" "noReplies T"
         "q' = rest @ enqueued T" "st = lastCommitted cur T" "err \<noteq> None \<longrightarrow> st = cur"
      using T0 by blast+
    show ?thesis
    proof (cases err)
      case (Some er)
      with prems(2) Cons b have "y = (st, Some er, tr')" by simp
      with T show ?thesis
        by (intro exI [of _ "ProcessEventCall cur e # T"]) (simp add: Cons)
    next
      case None
      with prems(2) Cons b have "loop ops cfg st q' tr' = Some y" by simp
      from prems(1) [OF this] obtain U where
        U0: "snd (snd y) = tr' @ U \<and> noReplies U \<and> fst y = lastCommitted st U \<and>
           prefix (processed U) (q' @ enqueued U) \<and>
           (fst (snd y) = None \<longrightarrow> processed U = q' @ enqueued U)" ..
      have U: "snd (snd y) = tr' @ U" "noReplies U" "fst y = lastCommitted st U"
           "prefix (processed U) (q' @ enqueued U)"
           "fst (snd y) = None \<longrightarrow> processed U = q' @ enqueued U"
        using U0 by blast+
      have p1: "snd (snd y) = tr @ (ProcessEventCall cur e # T @ U)" using T(1) U(1) by simp
      have p2: "noReplies (ProcessEventCall cur e # T @ U)" using T(3) U(2) by (simp add: noReplies_append)
      have p3: "fst y = lastCommitted cur (ProcessEventCall cur e # T @ U)"
        using T(5) U(3) by (simp add: lastCommitted_append)
      have pe: "processed (ProcessEventCall cur e # T @ U) = e # processed U"
        using T(2) by (simp add: processed_append)
      have en: "q @ enqueued (ProcessEventCall cur e # T @ U) = e # q' @ enqueued U"
        using T(4) by (simp add: Cons enqueued_append)
      have p4: "prefix (processed (ProcessEventCall cur e # T @ U))
                  (q @ enqueued (ProcessEventCall cur e # T @ U))"
        unfolding pe en using U(4) by simp
      have p5: "fst (snd y) = None \<longrightarrow> processed (ProcessEventCall cur e # T @ U)
                  = q @ enqueued (ProcessEventCall cur e # T @ U)"
        unfolding pe en using U(5) by simp
      show ?thesis
        by (intro exI [of _ "ProcessEventCall cur e # T @ U"] conjI p1 p2 p3 p4 p5)
    qed
  qed
  done

lemma applyLoop_trace:
  assumes "applyLoop ops cfg cur q tr = Some (s, err, tr')"
  shows "\<exists>T. tr' = tr @ T \<and> noReplies T \<and> s = lastCommitted cur T \<and>
         prefix (processed T) (q @ enqueued T) \<and>
         (err = None \<longrightarrow> processed T = q @ enqueued T)"
  using applyLoop_trace_aux [OF assms] by simp

lemma applyLoop_step:
  "applyEventsBody ops cfg cur q e tr = (None, st, q', tr') \<Longrightarrow>
     applyLoop ops cfg cur (e # q) tr = applyLoop ops cfg st q' tr'"
  by (subst applyLoop.simps) simp

lemma applyLoop_abort:
  "applyEventsBody ops cfg cur q e tr = (Some err, st, q', tr') \<Longrightarrow>
     applyLoop ops cfg cur (e # q) tr = Some (st, Some err, tr')"
  by (subst applyLoop.simps) simp

lemma executeDaemonEvents_append:
  "executeDaemonEvents cfg (ds1 @ ds2) tr =
     (case executeDaemonEvents cfg ds1 tr of
        (Some err, tr') \<Rightarrow> (Some err, tr')
      | (None, tr') \<Rightarrow> executeDaemonEvents cfg ds2 tr')"
  by (induction ds1 arbitrary: tr) (auto split: prod.splits option.splits)

lemma executeDaemonEvents_all:
  assumes "executeDaemonEvents cfg ds tr = (None, tr')"
  shows "\<exists>X. tr' = tr @ X \<and> effectOnly X \<and> executed X = ds"
  using executeDaemonEvents_trace [OF assms] by auto

text \<open>
  Claim C5. First part: when a transition emits external effects \<open>ds\<close> and all of
  them are executed without error, the actions that follow the call of
  \<open>ProcessEvent\<close> execute exactly \<open>ds\<close>, in this order, and put nothing into the
  queue; only then is the internal event of the transition put at the tail of the
  queue, the next state committed, and the loop continued. Second part: in a run of
  \<open>applyEvents\<close>, the events processed are the new event followed by the internal
  events in the order they were put into the queue (all of them when the run ends
  without error, the first ones when it is aborted).
\<close>

theorem applyEvents_effects_before_internal_event:
  "(\<forall>t em ds tr1.
      State_ProcessEvent ops cur e (Env cfg) = Inr t \<and> NewEvents t = Some em \<and>
      ExternalEvents em = Some ds \<and>
      executeDaemonEvents cfg ds (tr @ [ProcessEventCall cur e]) = (None, tr1) \<longrightarrow>
        (\<exists>X. tr1 = tr @ ProcessEventCall cur e # X \<and> executed X = ds \<and>
              enqueued X = [] \<and> processed X = []) \<and>
        applyLoop ops cfg cur (e # q) tr =
          applyLoop ops cfg (NextState t)
            (q @ (case InternalEvent em of None \<Rightarrow> [] | Some i \<Rightarrow> [i]))
            (tr1 @ (case InternalEvent em of None \<Rightarrow> [] | Some i \<Rightarrow> [Enqueue i])
                 @ [NotifySubscribers (NextState t)])) \<and>
   (\<forall>s err tr'.
      applyEvents ops cfg cur0 newEvent tr0 = Some (s, err, tr') \<longrightarrow>
        (\<exists>T. tr' = tr0 @ T \<and> prefix (processed T) (newEvent # enqueued T) \<and>
             (err = None \<longrightarrow> processed T = newEvent # enqueued T)))"
proof (intro conjI allI impI)
  fix t em ds tr1
  assume h: "State_ProcessEvent ops cur e (Env cfg) = Inr t \<and> NewEvents t = Some em \<and>
      ExternalEvents em = Some ds \<and>
      executeDaemonEvents cfg ds (tr @ [ProcessEventCall cur e]) = (None, tr1)"
  then have ex: "executeDaemonEvents cfg ds (tr @ [ProcessEventCall cur e]) = (None, tr1)"
    by simp
  from executeDaemonEvents_all [OF ex] obtain X where
    X: "tr1 = (tr @ [ProcessEventCall cur e]) @ X \<and> effectOnly X \<and> executed X = ds" ..
  then show "\<exists>X. tr1 = tr @ ProcessEventCall cur e # X \<and> executed X = ds \<and>
              enqueued X = [] \<and> processed X = []"
    by (intro exI [of _ X]) (simp add: effectOnly_def)
  have "applyEventsBody ops cfg cur q e tr =
      (None, NextState t, q @ (case InternalEvent em of None \<Rightarrow> [] | Some i \<Rightarrow> [i]),
       tr1 @ (case InternalEvent em of None \<Rightarrow> [] | Some i \<Rightarrow> [Enqueue i])
           @ [NotifySubscribers (NextState t)])"
    using h by (simp add: applyEventsBody_def split: option.splits)
  then show "applyLoop ops cfg cur (e # q) tr =
          applyLoop ops cfg (NextState t)
            (q @ (case InternalEvent em of None \<Rightarrow> [] | Some i \<Rightarrow> [i]))
            (tr1 @ (case InternalEvent em of None \<Rightarrow> [] | Some i \<Rightarrow> [Enqueue i])
                 @ [NotifySubscribers (NextState t)])"
    by (rule applyLoop_step)
next
  fix s err tr'
  assume "applyEvents ops cfg cur0 newEvent tr0 = Some (s, err, tr')"
  then have "applyLoop ops cfg cur0 [newEvent] tr0 = Some (s, err, tr')"
    by (simp add: applyEvents_def)
  from applyLoop_trace [OF this] obtain T where
    T: "tr' = tr0 @ T \<and> noReplies T \<and> s = lastCommitted cur0 T \<and>
         prefix (processed T) ([newEvent] @ enqueued T) \<and>
         (err = None \<longrightarrow> processed T = [newEvent] @ enqueued T)" ..
  then show "\<exists>T. tr' = tr0 @ T \<and> prefix (processed T) (newEvent # enqueued T) \<and>
             (err = None \<longrightarrow> processed T = newEvent # enqueued T)"
    by (intro exI [of _ T]) simp
qed

theorem applyEvents_effects_before_internal_event_witness:
  "State_ProcessEvent countdown 0 3 (Env quietCfg) =
     Inr \<lparr>NextState = 1,
          NewEvents = Some \<lparr>InternalEvent = Some 1,
            ExternalEvents = Some [DisableChannelEvent \<lparr>OutHash = [], OutIndex = 0\<rparr>,
                                   BroadcastTxn [1] ''close'']\<rparr>\<rparr> \<and>
   executeDaemonEvents quietCfg
       [DisableChannelEvent \<lparr>OutHash = [], OutIndex = 0\<rparr>, BroadcastTxn [1] ''close'']
       ([] @ [ProcessEventCall 0 3]) =
     (None, [ProcessEventCall 0 3,
             ExecuteDaemonEvent (DisableChannelEvent \<lparr>OutHash = [], OutIndex = 0\<rparr>),
             DaemonCall (DisableChannel \<lparr>OutHash = [], OutIndex = 0\<rparr>),
             ExecuteDaemonEvent (BroadcastTxn [1] ''close''),
             DaemonCall (BroadcastTransaction [1] ''close'')]) \<and>
   applyLoop countdown quietCfg 0 [3] [] =
     applyLoop countdown quietCfg 1 [1]
       [ProcessEventCall 0 3,
        ExecuteDaemonEvent (DisableChannelEvent \<lparr>OutHash = [], OutIndex = 0\<rparr>),
        DaemonCall (DisableChannel \<lparr>OutHash = [], OutIndex = 0\<rparr>),
        ExecuteDaemonEvent (BroadcastTxn [1] ''close''),
        DaemonCall (BroadcastTransaction [1] ''close''),
        Enqueue 1, NotifySubscribers 1] \<and>
   applyEvents countdown quietCfg 0 5 [] =
     Some (3, None,
       [ProcessEventCall 0 5,
        ExecuteDaemonEvent (DisableChannelEvent \<lparr>OutHash = [], OutIndex = 0\<rparr>),
        DaemonCall (DisableChannel \<lparr>OutHash = [], OutIndex = 0\<rparr>),
        ExecuteDaemonEvent (BroadcastTxn [1] ''close''),
        DaemonCall (BroadcastTransaction [1] ''close''),
        Enqueue 3, NotifySubscribers 1,
        ProcessEventCall 1 3,
        ExecuteDaemonEvent (DisableChannelEvent \<lparr>OutHash = [], OutIndex = 0\<rparr>),
        DaemonCall (DisableChannel \<lparr>OutHash = [], OutIndex = 0\<rparr>),
        ExecuteDaemonEvent (BroadcastTxn [1] ''close''),
        DaemonCall (BroadcastTransaction [1] ''close''),
        Enqueue 1, NotifySubscribers 2,
        ProcessEventCall 2 1, NotifySubscribers 3]) \<and>
   processed
       [ProcessEventCall 0 5,
        ExecuteDaemonEvent (DisableChannelEvent \<lparr>OutHash = [], OutIndex = 0\<rparr>),
        DaemonCall (DisableChannel \<lparr>OutHash = [], OutIndex = 0\<rparr>),
        ExecuteDaemonEvent (BroadcastTxn [1] ''close''),
        DaemonCall (BroadcastTransaction [1] ''close''),
        Enqueue 3, NotifySubscribers 1,
        ProcessEventCall (1::nat) 3,
        ExecuteDaemonEvent (DisableChannelEvent \<lparr>OutHash = [], OutIndex = 0\<rparr>),
        DaemonCall (DisableChannel \<lparr>OutHash = [], OutIndex = 0\<rparr>),
        ExecuteDaemonEvent (BroadcastTxn [1] ''close''),
        DaemonCall (BroadcastTransaction [1] ''close''),
        Enqueue 1, NotifySubscribers 2,
        ProcessEventCall 2 1, NotifySubscribers 3] = [5, 3, 1::nat]"
proof -
  let ?t = "\<lparr>NextState = 1::nat,
          NewEvents = Some \<lparr>InternalEvent = Some (1::nat),
            ExternalEvents = Some [DisableChannelEvent \<lparr>OutHash = [], OutIndex = 0\<rparr>,
                                   BroadcastTxn [1] ''close'']\<rparr>\<rparr>"
  let ?em = "\<lparr>InternalEvent = Some (1::nat),
            ExternalEvents = Some [DisableChannelEvent \<lparr>OutHash = [], OutIndex = 0\<rparr>,
                                   BroadcastTxn [1] ''close'']\<rparr>"
  let ?ds = "[DisableChannelEvent \<lparr>OutHash = [], OutIndex = 0\<rparr>, BroadcastTxn [1] ''close'']
              :: nat DaemonEvent list"
  let ?tr1 = "[ProcessEventCall 0 3,
             ExecuteDaemonEvent (DisableChannelEvent \<lparr>OutHash = [], OutIndex = 0\<rparr>),
             DaemonCall (DisableChannel \<lparr>OutHash = [], OutIndex = 0\<rparr>),
             ExecuteDaemonEvent (BroadcastTxn [1] ''close''),
             DaemonCall (BroadcastTransaction [1] ''close'')] :: (nat, nat) Action list"
  have p: "State_ProcessEvent countdown 0 3 (Env quietCfg) = Inr ?t"
    by (simp add: countdown_def)
  have x: "executeDaemonEvents quietCfg ?ds ([] @ [ProcessEventCall 0 3]) = (None, ?tr1)"
    by (simp add: quietCfg_def executeDaemonEvent_def Let_def)
  have b: "applyEvents countdown quietCfg 0 5 [] =
     Some (3, None,
       [ProcessEventCall 0 5,
        ExecuteDaemonEvent (DisableChannelEvent \<lparr>OutHash = [], OutIndex = 0\<rparr>),
        DaemonCall (DisableChannel \<lparr>OutHash = [], OutIndex = 0\<rparr>),
        ExecuteDaemonEvent (BroadcastTxn [1] ''close''),
        DaemonCall (BroadcastTransaction [1] ''close''),
        Enqueue 3, NotifySubscribers 1,
        ProcessEventCall 1 3,
        ExecuteDaemonEvent (DisableChannelEvent \<lparr>OutHash = [], OutIndex = 0\<rparr>),
        DaemonCall (DisableChannel \<lparr>OutHash = [], OutIndex = 0\<rparr>),
        ExecuteDaemonEvent (BroadcastTxn [1] ''close''),
        DaemonCall (BroadcastTransaction [1] ''close''),
        Enqueue 1, NotifySubscribers 2,
        ProcessEventCall 2 1, NotifySubscribers 3])"
    by (simp add: quietCfg_def countdown_def applyEvents_def applyLoop.simps
        applyEventsBody_def executeDaemonEvent_def Let_def)
  have prem: "State_ProcessEvent countdown 0 3 (Env quietCfg) = Inr ?t \<and>
      NewEvents ?t = Some ?em \<and> ExternalEvents ?em = Some ?ds \<and>
      executeDaemonEvents quietCfg ?ds ([] @ [ProcessEventCall 0 3]) = (None, ?tr1)"
    using p x by simp
  note step = applyEvents_effects_before_internal_event
      [where ops = countdown and cur = 0 and e = 3 and cfg = quietCfg and tr = "[]" and q = "[]",
       THEN conjunct1, rule_format, OF prem, THEN conjunct2]
  show ?thesis
    using p x b step by simp
qed

subsection \<open>The main loop\<close>

text \<open>
  Claim C3. The claim: \<open>CleanUp\<close> is called at most once, and the driver exits
  after a terminal state. The code: when a burst ends in a terminal state, the driver
  calls \<open>CleanUp\<close> and goes on with its loop, in the terminal state; the run below
  takes a second event and calls \<open>CleanUp\<close> a second time.
\<close>

theorem driveLoop_terminal_state_keeps_running:
  assumes "applyEvents ops cfg cur e tr = Some (newState, None, tr')"
    and "State_IsTerminal ops newState"
  shows "driveLoop ops cfg cur (NewEvent e # sched) tr =
           driveLoop ops cfg newState sched (tr' @ [CleanUpCall])"
  using assms by simp

theorem driveLoop_terminal_state_keeps_running_witness:
  "applyEvents countdown quietCfg 0 3 [NotifySubscribers 0] =
     Some (2, None,
       [NotifySubscribers 0, ProcessEventCall 0 3,
        ExecuteDaemonEvent (DisableChannelEvent \<lparr>OutHash = [], OutIndex = 0\<rparr>),
        DaemonCall (DisableChannel \<lparr>OutHash = [], OutIndex = 0\<rparr>),
        ExecuteDaemonEvent (BroadcastTxn [1] ''close''),
        DaemonCall (BroadcastTransaction [1] ''close''), Enqueue 1,
        NotifySubscribers 1, ProcessEventCall 1 1, NotifySubscribers 2]) \<and>
   State_IsTerminal countdown 2 \<and>
   driveMachine countdown quietCfg [NewEvent 3, NewEvent 1] =
     Some (Waiting, 3,
       [NotifySubscribers 0, ProcessEventCall 0 3,
        ExecuteDaemonEvent (DisableChannelEvent \<lparr>OutHash = [], OutIndex = 0\<rparr>),
        DaemonCall (DisableChannel \<lparr>OutHash = [], OutIndex = 0\<rparr>),
        ExecuteDaemonEvent (BroadcastTxn [1] ''close''),
        DaemonCall (BroadcastTransaction [1] ''close''), Enqueue 1,
        NotifySubscribers 1, ProcessEventCall 1 1, NotifySubscribers 2,
        CleanUpCall, ProcessEventCall 2 1, NotifySubscribers 3, CleanUpCall]) \<and>
   cleanups
       [NotifySubscribers 0, ProcessEventCall 0 3,
        ExecuteDaemonEvent (DisableChannelEvent \<lparr>OutHash = [], OutIndex = 0\<rparr>),
        DaemonCall (DisableChannel \<lparr>OutHash = [], OutIndex = 0\<rparr>),
        ExecuteDaemonEvent (BroadcastTxn [1] ''close''),
        DaemonCall (BroadcastTransaction [1] ''close''), Enqueue (1::nat),
        NotifySubscribers 1, ProcessEventCall 1 1, NotifySubscribers (2::nat),
        CleanUpCall, ProcessEventCall 2 1, NotifySubscribers 3, CleanUpCall] = 2"
proof -
  let ?tr1 = "[NotifySubscribers 0, ProcessEventCall 0 3,
        ExecuteDaemonEvent (DisableChannelEvent \<lparr>OutHash = [], OutIndex = 0\<rparr>),
        DaemonCall (DisableChannel \<lparr>OutHash = [], OutIndex = 0\<rparr>),
        ExecuteDaemonEvent (BroadcastTxn [1] ''close''),
        DaemonCall (BroadcastTransaction [1] ''close''), Enqueue 1,
        NotifySubscribers 1, ProcessEventCall 1 1, NotifySubscribers 2] :: (nat, nat) Action list"
  have a: "applyEvents countdown quietCfg 0 3 [NotifySubscribers 0] = Some (2, None, ?tr1)"
    by (simp add: quietCfg_def countdown_def applyEvents_def applyLoop.simps
        applyEventsBody_def executeDaemonEvent_def Let_def)
  have t: "State_IsTerminal countdown 2"
    by (simp add: countdown_def)
  have rest: "driveLoop countdown quietCfg 2 [NewEvent 1] (?tr1 @ [CleanUpCall]) =
      Some (Waiting, 3, ?tr1 @ [CleanUpCall, ProcessEventCall 2 1, NotifySubscribers 3, CleanUpCall])"
    by (simp add: quietCfg_def countdown_def applyEvents_def applyLoop.simps
        applyEventsBody_def Let_def)
  have d: "driveMachine countdown quietCfg [NewEvent 3, NewEvent 1] =
      driveLoop countdown quietCfg 0 [NewEvent 3, NewEvent 1] [NotifySubscribers 0]"
    by (simp add: driveMachine_def quietCfg_def)
  show ?thesis
    using a t d rest
      driveLoop_terminal_state_keeps_running [OF a t, of "[NewEvent 1]"]
    by simp
qed

text \<open>
  Claim C6. When \<open>ProcessEvent\<close> returns an error, or when one of the effects of
  the transition does (the effects before it having succeeded), \<open>applyEvents\<close> stops
  there and returns that error with the state the failing event was processed in.
  Whenever \<open>applyEvents\<close> returns an error, the state it returns is the last one
  committed in the burst (the state the burst started in when there is none), and
  \<open>driveMachine\<close> hands the error to the error reporter, starts \<open>Stop\<close> and
  returns.
\<close>

theorem applyEvents_error_aborts_reports_and_stops:
  "(State_ProcessEvent ops cur e (Env cfg) = Inl err \<longrightarrow>
      applyLoop ops cfg cur (e # q) tr = Some (cur, Some err, tr @ [ProcessEventCall cur e])) \<and>
   (\<forall>t em ds1 d ds2 trm tr1.
      State_ProcessEvent ops cur e (Env cfg) = Inr t \<and> NewEvents t = Some em \<and>
      ExternalEvents em = Some (ds1 @ d # ds2) \<and>
      executeDaemonEvents cfg ds1 (tr @ [ProcessEventCall cur e]) = (None, trm) \<and>
      executeDaemonEvent cfg d trm = (Some err, tr1) \<longrightarrow>
        applyLoop ops cfg cur (e # q) tr = Some (cur, Some err, tr1)) \<and>
   (\<forall>s tr'.
      applyEvents ops cfg cur0 newEvent tr0 = Some (s, Some err, tr') \<longrightarrow>
        (\<exists>T. tr' = tr0 @ T \<and> s = lastCommitted cur0 T) \<and>
        driveLoop ops cfg cur0 (NewEvent newEvent # sched) tr0 =
          Some (Returned, cur0, tr' @ [ReportError err, Go StopTask]))"
proof (intro conjI allI impI)
  assume "State_ProcessEvent ops cur e (Env cfg) = Inl err"
  then have "applyEventsBody ops cfg cur q e tr =
      (Some err, cur, q, tr @ [ProcessEventCall cur e])"
    by (simp add: applyEventsBody_def)
  then show "applyLoop ops cfg cur (e # q) tr =
      Some (cur, Some err, tr @ [ProcessEventCall cur e])"
    by (rule applyLoop_abort)
next
  fix t em ds1 d ds2 trm tr1
  assume h: "State_ProcessEvent ops cur e (Env cfg) = Inr t \<and> NewEvents t = Some em \<and>
      ExternalEvents em = Some (ds1 @ d # ds2) \<and>
      executeDaemonEvents cfg ds1 (tr @ [ProcessEventCall cur e]) = (None, trm) \<and>
      executeDaemonEvent cfg d trm = (Some err, tr1)"
  then have "executeDaemonEvents cfg (ds1 @ d # ds2) (tr @ [ProcessEventCall cur e]) =
      (Some err, tr1)"
    by (simp add: executeDaemonEvents_append)
  with h have "applyEventsBody ops cfg cur q e tr = (Some err, cur, q, tr1)"
    by (simp add: applyEventsBody_def)
  then show "applyLoop ops cfg cur (e # q) tr = Some (cur, Some err, tr1)"
    by (rule applyLoop_abort)
next
  fix s tr'
  assume a: "applyEvents ops cfg cur0 newEvent tr0 = Some (s, Some err, tr')"
  then have "applyLoop ops cfg cur0 [newEvent] tr0 = Some (s, Some err, tr')"
    by (simp add: applyEvents_def)
  from applyLoop_trace [OF this] show "\<exists>T. tr' = tr0 @ T \<and> s = lastCommitted cur0 T"
    by blast
  from a show "driveLoop ops cfg cur0 (NewEvent newEvent # sched) tr0 =
      Some (Returned, cur0, tr' @ [ReportError err, Go StopTask])"
    by simp
qed

theorem applyEvents_error_aborts_reports_and_stops_witness:
  "State_ProcessEvent countdown 1 0 (Env quietCfg) = Inl (Error ''invalid state transition'') \<and>
   applyLoop countdown quietCfg 1 [0] [] =
     Some (1, Some (Error ''invalid state transition''), [ProcessEventCall 1 0]) \<and>
   State_ProcessEvent countdown 0 3 (Env rejectingCfg) =
     Inr \<lparr>NextState = 1,
          NewEvents = Some \<lparr>InternalEvent = Some 1,
            ExternalEvents = Some ([DisableChannelEvent \<lparr>OutHash = [], OutIndex = 0\<rparr>]
                                   @ BroadcastTxn [1] ''close'' # [])\<rparr>\<rparr> \<and>
   executeDaemonEvents rejectingCfg [DisableChannelEvent \<lparr>OutHash = [], OutIndex = 0\<rparr>]
       ([] @ [ProcessEventCall 0 3]) =
     (None, [ProcessEventCall 0 3,
             ExecuteDaemonEvent (DisableChannelEvent \<lparr>OutHash = [], OutIndex = 0\<rparr>),
             DaemonCall (DisableChannel \<lparr>OutHash = [], OutIndex = 0\<rparr>)]) \<and>
   executeDaemonEvent rejectingCfg (BroadcastTxn [1] ''close'')
       [ProcessEventCall 0 3,
        ExecuteDaemonEvent (DisableChannelEvent \<lparr>OutHash = [], OutIndex = 0\<rparr>),
        DaemonCall (DisableChannel \<lparr>OutHash = [], OutIndex = 0\<rparr>)] =
     (Some (Wrap ''unable to broadcast txn'' (Error ''rejected'')),
      [ProcessEventCall 0 3,
       ExecuteDaemonEvent (DisableChannelEvent \<lparr>OutHash = [], OutIndex = 0\<rparr>),
       DaemonCall (DisableChannel \<lparr>OutHash = [], OutIndex = 0\<rparr>),
       ExecuteDaemonEvent (BroadcastTxn [1] ''close''),
       DaemonCall (BroadcastTransaction [1] ''close'')]) \<and>
   applyLoop countdown rejectingCfg 0 [3] [] =
     Some (0, Some (Wrap ''unable to broadcast txn'' (Error ''rejected'')),
      [ProcessEventCall 0 3,
       ExecuteDaemonEvent (DisableChannelEvent \<lparr>OutHash = [], OutIndex = 0\<rparr>),
       DaemonCall (DisableChannel \<lparr>OutHash = [], OutIndex = 0\<rparr>),
       ExecuteDaemonEvent (BroadcastTxn [1] ''close''),
       DaemonCall (BroadcastTransaction [1] ''close'')]) \<and>
   applyEvents countdown quietCfg 0 2 [NotifySubscribers 0] =
     Some (1, Some (Error ''invalid state transition''),
       [NotifySubscribers 0, ProcessEventCall 0 2,
        ExecuteDaemonEvent (DisableChannelEvent \<lparr>OutHash = [], OutIndex = 0\<rparr>),
        DaemonCall (DisableChannel \<lparr>OutHash = [], OutIndex = 0\<rparr>),
        ExecuteDaemonEvent (BroadcastTxn [1] ''close''),
        DaemonCall (BroadcastTransaction [1] ''close''), Enqueue 0,
        NotifySubscribers 1, ProcessEventCall 1 0]) \<and>
   lastCommitted 0
       [ProcessEventCall 0 2,
        ExecuteDaemonEvent (DisableChannelEvent \<lparr>OutHash = [], OutIndex = 0\<rparr>),
        DaemonCall (DisableChannel \<lparr>OutHash = [], OutIndex = 0\<rparr>),
        ExecuteDaemonEvent (BroadcastTxn [1] ''close''),
        DaemonCall (BroadcastTransaction [1] ''close''), Enqueue (0::nat),
        NotifySubscribers 1, ProcessEventCall 1 0] = (1::nat) \<and>
   driveLoop countdown quietCfg 0 [NewEvent 2] [NotifySubscribers 0] =
     Some (Returned, 0,
       [NotifySubscribers 0, ProcessEventCall 0 2,
        ExecuteDaemonEvent (DisableChannelEvent \<lparr>OutHash = [], OutIndex = 0\<rparr>),
        DaemonCall (DisableChannel \<lparr>OutHash = [], OutIndex = 0\<rparr>),
        ExecuteDaemonEvent (BroadcastTxn [1] ''close''),
        DaemonCall (BroadcastTransaction [1] ''close''), Enqueue 0,
        NotifySubscribers 1, ProcessEventCall 1 0,
        ReportError (Error ''invalid state transition''), Go StopTask])"
proof -
  let ?inv = "Error ''invalid state transition''"
  let ?rej = "Wrap ''unable to broadcast txn'' (Error ''rejected'')"
  let ?dis = "DisableChannelEvent \<lparr>OutHash = [], OutIndex = 0\<rparr> :: nat DaemonEvent"
  let ?bc = "BroadcastTxn [1] ''close'' :: nat DaemonEvent"
  let ?em = "\<lparr>InternalEvent = Some (1::nat), ExternalEvents = Some ([?dis] @ ?bc # [])\<rparr>"
  let ?t = "\<lparr>NextState = 1::nat, NewEvents = Some ?em\<rparr>"
  let ?trm = "[ProcessEventCall 0 3, ExecuteDaemonEvent ?dis,
      DaemonCall (DisableChannel \<lparr>OutHash = [], OutIndex = 0\<rparr>)] :: (nat, nat) Action list"
  let ?tr1 = "?trm @ [ExecuteDaemonEvent ?bc, DaemonCall (BroadcastTransaction [1] ''close'')]"
  let ?burst = "[ProcessEventCall 0 2, ExecuteDaemonEvent ?dis,
      DaemonCall (DisableChannel \<lparr>OutHash = [], OutIndex = 0\<rparr>),
      ExecuteDaemonEvent ?bc, DaemonCall (BroadcastTransaction [1] ''close''), Enqueue 0,
      NotifySubscribers 1, ProcessEventCall 1 0] :: (nat, nat) Action list"
  have p1: "State_ProcessEvent countdown 1 0 (Env quietCfg) = Inl ?inv"
    by (simp add: countdown_def)
  have p2: "State_ProcessEvent countdown 0 3 (Env rejectingCfg) = Inr ?t"
    by (simp add: countdown_def)
  have x1: "executeDaemonEvents rejectingCfg [?dis] ([] @ [ProcessEventCall 0 3]) = (None, ?trm)"
    by (simp add: rejectingCfg_def executeDaemonEvent_def Let_def)
  have x2: "executeDaemonEvent rejectingCfg ?bc ?trm = (Some ?rej, ?tr1)"
    by (simp add: rejectingCfg_def executeDaemonEvent_def Let_def)
  have a3: "applyEvents countdown quietCfg 0 2 [NotifySubscribers 0] =
      Some (1, Some ?inv, [NotifySubscribers 0] @ ?burst)"
    by (simp add: quietCfg_def countdown_def applyEvents_def applyLoop.simps
        applyEventsBody_def executeDaemonEvent_def Let_def)
  have lc: "lastCommitted 0 ?burst = (1::nat)"
    by simp
  note inv = applyEvents_error_aborts_reports_and_stops
    [where ops = countdown and cfg = quietCfg and err = ?inv and cur = 1 and e = 0
       and q = "[]" and tr = "[]" and ?cur0.0 = 0 and newEvent = 2
       and ?tr0.0 = "[NotifySubscribers 0]" and sched = "[]"]
  note rej = applyEvents_error_aborts_reports_and_stops
    [where ops = countdown and cfg = rejectingCfg and err = ?rej and cur = 0 and e = 3
       and q = "[]" and tr = "[]"]
  note c1 = inv [THEN conjunct1, rule_format, OF p1]
  have prem2: "State_ProcessEvent countdown 0 3 (Env rejectingCfg) = Inr ?t \<and>
      NewEvents ?t = Some ?em \<and> ExternalEvents ?em = Some ([?dis] @ ?bc # []) \<and>
      executeDaemonEvents rejectingCfg [?dis] ([] @ [ProcessEventCall 0 3]) = (None, ?trm) \<and>
      executeDaemonEvent rejectingCfg ?bc ?trm = (Some ?rej, ?tr1)"
    using p2 x1 x2 by simp
  note c2 = rej [THEN conjunct2, THEN conjunct1, rule_format, OF prem2]
  note c3 = inv [THEN conjunct2, THEN conjunct2, rule_format, OF a3, THEN conjunct2]
  show ?thesis
    using p1 c1 p2 x1 x2 c2 a3 lc c3 by simp
qed

text \<open>
  The main loop keeps the invariant that its variable \<open>currentState\<close> is the state
  committed last: by induction over what the \<open>select\<close> receives.
\<close>

lemma noReplies_repliesCommitted: "noReplies A \<Longrightarrow> repliesCommitted c A"
  by (induction c A rule: repliesCommitted.induct) simp_all

lemma repliesCommitted_append:
  "repliesCommitted (Some c) (A @ B) =
     (repliesCommitted (Some c) A \<and> repliesCommitted (Some (lastCommitted c A)) B)"
  by (induction c A rule: lastCommitted.induct) auto

lemma driveLoop_replies:
  "driveLoop ops cfg cur sched tr = Some (d, s, T) \<Longrightarrow>
     \<exists>U. T = tr @ U \<and> repliesCommitted (Some cur) U"
proof (induction ops cfg cur sched tr rule: driveLoop.induct)
  case (1 ops cfg cur tr)
  then show ?case by simp
next
  case (2 ops cfg cur newEvent sched tr)
  from "2.prems" obtain newState err tr' where
    a: "applyEvents ops cfg cur newEvent tr = Some (newState, err, tr')"
    by (cases "applyEvents ops cfg cur newEvent tr") auto
  then have "applyLoop ops cfg cur [newEvent] tr = Some (newState, err, tr')"
    by (simp add: applyEvents_def)
  from applyLoop_trace [OF this] obtain T1 where
    T1: "tr' = tr @ T1" "noReplies T1" "newState = lastCommitted cur T1"
    by blast
  have rc1: "repliesCommitted (Some cur) T1"
    by (rule noReplies_repliesCommitted [OF T1(2)])
  show ?case
  proof (cases err)
    case (Some e)
    with "2.prems" a have "T = tr' @ [ReportError e, Go StopTask]" by simp
    then have "T = tr @ (T1 @ [ReportError e, Go StopTask])" using T1(1) by simp
    moreover have "repliesCommitted (Some cur) (T1 @ [ReportError e, Go StopTask])"
      using rc1 by (simp add: repliesCommitted_append)
    ultimately show ?thesis by blast
  next
    case None
    show ?thesis
    proof (cases "State_IsTerminal ops newState")
      case True
      with "2.prems" a None have
        r: "driveLoop ops cfg newState sched (tr' @ [CleanUpCall]) = Some (d, s, T)" by simp
      from "2.IH"(1) [OF a [unfolded None], of newState "(None, tr')" None tr'] True r
      obtain U where
        U: "T = (tr' @ [CleanUpCall]) @ U" "repliesCommitted (Some newState) U" by auto
      have "T = tr @ (T1 @ CleanUpCall # U)" using U(1) T1(1) by simp
      moreover have "repliesCommitted (Some cur) (T1 @ CleanUpCall # U)"
        using rc1 U(2) T1(3) by (simp add: repliesCommitted_append)
      ultimately show ?thesis by blast
    next
      case False
      with "2.prems" a None have
        r: "driveLoop ops cfg newState sched tr' = Some (d, s, T)" by simp
      from "2.IH"(2) [OF a [unfolded None], of newState "(None, tr')" None tr'] False r
      obtain U where
        U: "T = tr' @ U" "repliesCommitted (Some newState) U" by auto
      have "T = tr @ (T1 @ U)" using U(1) T1(1) by simp
      moreover have "repliesCommitted (Some cur) (T1 @ U)"
        using rc1 U(2) T1(3) by (simp add: repliesCommitted_append)
      ultimately show ?thesis by blast
    qed
  qed
next
  case (3 ops cfg cur chosen sched tr)
  show ?case
  proof (cases "SendOrQuit chosen")
    case True
    with "3.prems" have
      r: "driveLoop ops cfg cur sched (tr @ [QueryReply cur]) = Some (d, s, T)" by simp
    from "3.IH" [OF _ r] True obtain U where
      U: "T = (tr @ [QueryReply cur]) @ U" "repliesCommitted (Some cur) U" by blast
    have "T = tr @ (QueryReply cur # U)" using U(1) by simp
    moreover have "repliesCommitted (Some cur) (QueryReply cur # U)" using U(2) by simp
    ultimately show ?thesis by blast
  next
    case False
    with "3.prems" show ?thesis by simp
  qed
next
  case (4 ops cfg cur sched tr)
  then show ?case by simp
qed

lemma effectOnly_repliesCommitted:
  "effectOnly A \<Longrightarrow> repliesCommitted c (A @ B) = repliesCommitted c B"
  unfolding effectOnly_def
  by (induction c A rule: repliesCommitted.induct) simp_all

lemma driveMachine_replies:
  assumes "driveMachine ops cfg sched = Some (d, s, T)"
  shows "repliesCommitted None T"
proof -
  obtain e0 tr0 where i: "(case InitEvent cfg of None \<Rightarrow> (None, [])
      | Some event \<Rightarrow> executeDaemonEvent cfg event []) = (e0, tr0)"
    by (cases "(case InitEvent cfg of None \<Rightarrow> (None, [])
      | Some event \<Rightarrow> executeDaemonEvent cfg event [])")
  have eo: "effectOnly tr0"
  proof (cases "InitEvent cfg")
    case None
    with i show ?thesis by (simp add: effectOnly_def)
  next
    case (Some ev)
    with i have "executeDaemonEvent cfg ev [] = (e0, tr0)" by simp
    from executeDaemonEvent_trace [OF this] show ?thesis
      by (auto simp: effectOnly_def)
  qed
  show ?thesis
  proof (cases e0)
    case (Some e)
    with assms i have "T = tr0" by (simp add: driveMachine_def Let_def)
    then show ?thesis
      using eo noReplies_repliesCommitted [of tr0 None] by (simp add: effectOnly_def)
  next
    case None
    with assms i have "driveLoop ops cfg (InitialState cfg) sched
        (tr0 @ [NotifySubscribers (InitialState cfg)]) = Some (d, s, T)"
      by (simp add: driveMachine_def Let_def)
    from driveLoop_replies [OF this] obtain U where
      U: "T = (tr0 @ [NotifySubscribers (InitialState cfg)]) @ U \<and>
          repliesCommitted (Some (InitialState cfg)) U" ..
    then have "T = tr0 @ (NotifySubscribers (InitialState cfg) # U)" by simp
    then show ?thesis
      using U by (simp add: effectOnly_repliesCommitted [OF eo])
  qed
qed

text \<open>
  Claim C8. \<open>CurrentState\<close> returns the error "state machine is shutting down"
  when the quit signal wins the \<open>select\<close> that sends the query, and otherwise the
  state the driver answered with. The driver answers a query with its current state,
  and in every run of \<open>driveMachine\<close> each answer is the state that was committed
  last before it.
\<close>

theorem CurrentState_last_committed_or_shutting_down:
  "CurrentState QuitCase arrived = Inl (Error ''state machine is shutting down'') \<and>
   CurrentState SendCase (Some currentState) = Inr currentState \<and>
   driveLoop ops cfg currentState (StateQuery SendCase # sched) tr =
     driveLoop ops cfg currentState sched (tr @ [QueryReply currentState]) \<and>
   (\<forall>d s T. driveMachine ops cfg received = Some (d, s, T) \<longrightarrow> repliesCommitted None T)"
proof (intro conjI allI impI)
  show "CurrentState QuitCase arrived = Inl (Error ''state machine is shutting down'')"
    by (simp add: CurrentState_def SendOrQuit_def)
  show "CurrentState SendCase (Some currentState) = Inr currentState"
    by (simp add: CurrentState_def SendOrQuit_def RecvOrTimeout_def)
  show "driveLoop ops cfg currentState (StateQuery SendCase # sched) tr =
     driveLoop ops cfg currentState sched (tr @ [QueryReply currentState])"
    by (simp add: SendOrQuit_def)
next
  fix d s T
  assume "driveMachine ops cfg received = Some (d, s, T)"
  then show "repliesCommitted None T" by (rule driveMachine_replies)
qed

theorem CurrentState_last_committed_or_shutting_down_witness:
  "driveMachine countdown quietCfg [NewEvent 3, StateQuery SendCase, NewEvent 1, QuitSignal] =
     Some (Returned, 3,
       [NotifySubscribers 0, ProcessEventCall 0 3,
        ExecuteDaemonEvent (DisableChannelEvent \<lparr>OutHash = [], OutIndex = 0\<rparr>),
        DaemonCall (DisableChannel \<lparr>OutHash = [], OutIndex = 0\<rparr>),
        ExecuteDaemonEvent (BroadcastTxn [1] ''close''),
        DaemonCall (BroadcastTransaction [1] ''close''), Enqueue 1,
        NotifySubscribers 1, ProcessEventCall 1 1, NotifySubscribers 2,
        CleanUpCall, QueryReply 2, ProcessEventCall 2 1, NotifySubscribers 3,
        CleanUpCall]) \<and>
   repliesCommitted None
       [NotifySubscribers 0, ProcessEventCall 0 3,
        ExecuteDaemonEvent (DisableChannelEvent \<lparr>OutHash = [], OutIndex = 0\<rparr>),
        DaemonCall (DisableChannel \<lparr>OutHash = [], OutIndex = 0\<rparr>),
        ExecuteDaemonEvent (BroadcastTxn [1] ''close''),
        DaemonCall (BroadcastTransaction [1] ''close''), Enqueue (1::nat),
        NotifySubscribers 1, ProcessEventCall 1 1, NotifySubscribers (2::nat),
        CleanUpCall, QueryReply 2, ProcessEventCall 2 1, NotifySubscribers 3,
        CleanUpCall] \<and>
   CurrentState SendCase (Some (2::nat)) = Inr 2 \<and>
   CurrentState QuitCase (Some (2::nat)) = Inl (Error ''state machine is shutting down'')"
proof -
  have run: "driveMachine countdown quietCfg
       [NewEvent 3, StateQuery SendCase, NewEvent 1, QuitSignal] =
     Some (Returned, 3,
       [NotifySubscribers 0, ProcessEventCall 0 3,
        ExecuteDaemonEvent (DisableChannelEvent \<lparr>OutHash = [], OutIndex = 0\<rparr>),
        DaemonCall (DisableChannel \<lparr>OutHash = [], OutIndex = 0\<rparr>),
        ExecuteDaemonEvent (BroadcastTxn [1] ''close''),
        DaemonCall (BroadcastTransaction [1] ''close''), Enqueue 1,
        NotifySubscribers 1, ProcessEventCall 1 1, NotifySubscribers 2,
        CleanUpCall, QueryReply 2, ProcessEventCall 2 1, NotifySubscribers 3,
        CleanUpCall])"
    by (simp add: driveMachine_def quietCfg_def countdown_def applyEvents_def applyLoop.simps
        applyEventsBody_def executeDaemonEvent_def Let_def SendOrQuit_def)
  note all = CurrentState_last_committed_or_shutting_down
    [where ops = countdown and cfg = quietCfg and currentState = "2::nat"
       and arrived = "Some (2::nat)"
       and received = "[NewEvent 3, StateQuery SendCase, NewEvent 1, QuitSignal]"]
  note q = all [THEN conjunct1]
  note a = all [THEN conjunct2, THEN conjunct1]
  note rc = all [THEN conjunct2, THEN conjunct2, THEN conjunct2, rule_format, OF run]
  from run q a rc show ?thesis by (intro conjI)
qed

end
